theory Spec2Isabelle
  imports Complex_Main "HOL-Library.Word" "HOL-Library.Sublist"
begin

unbundle bit_operations_syntax

section \<open>Session state and sampler chain (tclllama.c, lines 21-134)\<close>

text \<open>
  The sampler chain is the list of stages in the order in which
  \<^verbatim>\<open>llama_sampler_chain_add\<close> is called on it. A C \<^verbatim>\<open>float\<close> field is modelled
  by the real number it denotes (the two zeros of the format are the one number 0, and an
  infinity stands as a number beyond every constant it is compared with; the only
  operations on these fields are order comparisons against the exactly representable
  constants 0, 1 and 2), \<^verbatim>\<open>int\<close> and \<^verbatim>\<open>int32_t\<close> fields by \<^typ>\<open>int\<close>.
\<close>

datatype llama_sampler =
    Sampler_temp real
  | Sampler_top_k int
  | Sampler_top_p real nat
  | Sampler_min_p real nat
  | Sampler_penalties int real real real
  | Sampler_mirostat int int real real int
  | Sampler_mirostat_v2 int real real
  | Sampler_dist int

text \<open>
  \<^verbatim>\<open>LlamaState\<close>. The backend handles \<^verbatim>\<open>model\<close>, \<^verbatim>\<open>ctx\<close> and \<^verbatim>\<open>vocab\<close> are
  external resources and the two wall-clock fields \<^verbatim>\<open>t_eval_ms\<close>, \<^verbatim>\<open>t_gen_ms\<close> are
  measured times; neither is represented. \<open>sampler = None\<close> is the NULL pointer.
\<close>

record LlamaState =
  sampler :: "llama_sampler list option"
  temp :: real
  top_k :: int
  top_p :: real
  min_p :: real
  repeat_penalty :: real
  repeat_last_n :: int
  presence_penalty :: real
  frequency_penalty :: real
  mirostat :: int
  mirostat_tau :: real
  mirostat_eta :: real
  seed :: int
  n_predict :: int
  n_ctx :: int
  n_past :: int
  verbose :: int
  n_eval :: int
  n_gen :: int

text \<open>The state after \<^verbatim>\<open>memset(state, 0, sizeof(LlamaState))\<close> in \<^verbatim>\<open>Llama_Init_Cmd\<close>.\<close>

definition zeroed_state :: LlamaState where
  "zeroed_state =
     \<lparr> sampler = None, temp = 0, top_k = 0, top_p = 0, min_p = 0, repeat_penalty = 0,
       repeat_last_n = 0, presence_penalty = 0, frequency_penalty = 0, mirostat = 0,
       mirostat_tau = 0, mirostat_eta = 0, seed = 0, n_predict = 0, n_ctx = 0, n_past = 0,
       verbose = 0, n_eval = 0, n_gen = 0 \<rparr>"

definition set_defaults :: "LlamaState \<Rightarrow> LlamaState" where
  "set_defaults state =
     state\<lparr> temp := 0.80, top_k := 40, top_p := 0.95, min_p := 0.05,
            repeat_penalty := 1.10, repeat_last_n := 64, presence_penalty := 0,
            frequency_penalty := 0, mirostat := 0, mirostat_tau := 5, mirostat_eta := 0.10,
            n_predict := -1, seed := -1, n_past := 0, n_ctx := 4096, verbose := 0,
            n_eval := 0, n_gen := 0 \<rparr>"

subsection \<open>Option dictionaries\<close>

text \<open>
  A Tcl value as the two conversion functions of the Tcl C API see it: an integer, a
  floating-point number, or a string that is neither. \<^verbatim>\<open>Tcl_GetDoubleFromObj\<close> accepts
  integers and doubles, \<^verbatim>\<open>Tcl_GetIntFromObj\<close> accepts integers only. The options object
  is a finite dictionary from option names to values; \<open>None\<close> is the NULL pointer passed by
  \<^verbatim>\<open>Llama_Init_Cmd\<close>.
\<close>

datatype tcl_obj = Tcl_Int int | Tcl_Double real | Tcl_Str string

type_synonym tcl_dict = "string \<Rightarrow> tcl_obj option"

fun Tcl_GetDoubleFromObj :: "tcl_obj \<Rightarrow> real option" where
  "Tcl_GetDoubleFromObj (Tcl_Int i) = Some (of_int i)"
| "Tcl_GetDoubleFromObj (Tcl_Double d) = Some d"
| "Tcl_GetDoubleFromObj (Tcl_Str s) = None"

fun Tcl_GetIntFromObj :: "tcl_obj \<Rightarrow> int option" where
  "Tcl_GetIntFromObj (Tcl_Int i) = Some i"
| "Tcl_GetIntFromObj (Tcl_Double d) = None"
| "Tcl_GetIntFromObj (Tcl_Str s) = None"

text \<open>
  The two extraction macros: the target keeps its value unless the key is present and
  its value converts. \<^verbatim>\<open>GET_D_FLOAT\<close> stores \<^verbatim>\<open>(float)d\<close> (line 85): the double is
  converted to single precision. The conversion is the parameter \<open>to_float\<close>, which maps
  the number the double denotes to the number the resulting float denotes; it is not the
  identity (a double of magnitude at most \<open>2 ^ -150\<close> becomes a zero, other doubles are
  rounded to 24 significant bits). Nothing is assumed about it.
\<close>

definition GET_D_FLOAT :: "(real \<Rightarrow> real) \<Rightarrow> tcl_dict \<Rightarrow> string \<Rightarrow> real \<Rightarrow> real" where
  "GET_D_FLOAT to_float options_obj name target =
     (case options_obj name of
        None \<Rightarrow> target
      | Some val \<Rightarrow>
          (case Tcl_GetDoubleFromObj val of None \<Rightarrow> target | Some d \<Rightarrow> to_float d))"

definition GET_D_INT :: "tcl_dict \<Rightarrow> string \<Rightarrow> int \<Rightarrow> int" where
  "GET_D_INT options_obj name target =
     (case options_obj name of
        None \<Rightarrow> target
      | Some val \<Rightarrow> (case Tcl_GetIntFromObj val of None \<Rightarrow> target | Some i \<Rightarrow> i))"

subsection \<open>apply_options\<close>

text \<open>Lines 94-104: the eleven extractions.\<close>

definition extract_options :: "(real \<Rightarrow> real) \<Rightarrow> tcl_dict \<Rightarrow> LlamaState \<Rightarrow> LlamaState" where
  "extract_options to_float options_obj state =
     state\<lparr> temp := GET_D_FLOAT to_float options_obj ''temperature'' (temp state),
            top_k := GET_D_INT options_obj ''top_k'' (top_k state),
            top_p := GET_D_FLOAT to_float options_obj ''top_p'' (top_p state),
            min_p := GET_D_FLOAT to_float options_obj ''min_p'' (min_p state),
            repeat_penalty := GET_D_FLOAT to_float options_obj ''repeat_penalty'' (repeat_penalty state),
            repeat_last_n := GET_D_INT options_obj ''repeat_last_n'' (repeat_last_n state),
            n_predict := GET_D_INT options_obj ''num_predict'' (n_predict state),
            mirostat := GET_D_INT options_obj ''mirostat'' (mirostat state),
            mirostat_tau := GET_D_FLOAT to_float options_obj ''mirostat_tau'' (mirostat_tau state),
            mirostat_eta := GET_D_FLOAT to_float options_obj ''mirostat_eta'' (mirostat_eta state),
            seed := GET_D_INT options_obj ''seed'' (seed state) \<rparr>"

text \<open>Lines 107-120: the range checks, each \<^verbatim>\<open>if\<close> in the order of the source.\<close>

definition clamp_unit :: "real \<Rightarrow> real" where
  "clamp_unit x = (let y = (if x < 0 then 0 else x) in if y > 1 then 1 else y)"

definition clamp_options :: "LlamaState \<Rightarrow> LlamaState" where
  "clamp_options state =
     state\<lparr> temp := (let t = (if temp state < 0 then 0 else temp state)
                     in if t > 2 then 2 else t),
            top_k := (if top_k state < 1 then 1 else top_k state),
            top_p := clamp_unit (top_p state),
            min_p := clamp_unit (min_p state),
            repeat_penalty := (if repeat_penalty state < 0 then 1 else repeat_penalty state),
            n_predict := (if n_predict state < -1 then -1 else n_predict state) \<rparr>"

text \<open>Lines 123-133: the chain is rebuilt from the scalar fields. \<open>n_vocab\<close> is
  \<^verbatim>\<open>llama_vocab_n_tokens(state->vocab)\<close>.\<close>

definition build_chain :: "int \<Rightarrow> LlamaState \<Rightarrow> llama_sampler list" where
  "build_chain n_vocab state =
     [ Sampler_temp (temp state),
       Sampler_top_k (top_k state),
       Sampler_top_p (top_p state) 1,
       Sampler_min_p (min_p state) 1,
       Sampler_penalties (repeat_last_n state) (repeat_penalty state)
         (presence_penalty state) (frequency_penalty state) ]
     @ (if mirostat state = 1
        then [Sampler_mirostat n_vocab (seed state) (mirostat_tau state) (mirostat_eta state) 100]
        else if mirostat state = 2
        then [Sampler_mirostat_v2 (seed state) (mirostat_tau state) (mirostat_eta state)]
        else [])
     @ [Sampler_dist (seed state)]"

definition apply_options ::
  "(real \<Rightarrow> real) \<Rightarrow> int \<Rightarrow> tcl_dict option \<Rightarrow> LlamaState \<Rightarrow> LlamaState" where
  "apply_options to_float n_vocab options_obj state =
     (let state1 = (case options_obj of
                      None \<Rightarrow> state
                    | Some d \<Rightarrow> clamp_options (extract_options to_float d state))
      in state1\<lparr> sampler := Some (build_chain n_vocab state1) \<rparr>)"

text \<open>The kind of a stage, and the kinds of the installed chain in order.\<close>

datatype stage_kind =
  K_temp | K_top_k | K_top_p | K_min_p | K_penalties | K_mirostat | K_mirostat_v2 | K_dist

fun kind_of :: "llama_sampler \<Rightarrow> stage_kind" where
  "kind_of (Sampler_temp t) = K_temp"
| "kind_of (Sampler_top_k k) = K_top_k"
| "kind_of (Sampler_top_p p m) = K_top_p"
| "kind_of (Sampler_min_p p m) = K_min_p"
| "kind_of (Sampler_penalties n r p f) = K_penalties"
| "kind_of (Sampler_mirostat v s t e m) = K_mirostat"
| "kind_of (Sampler_mirostat_v2 s t e) = K_mirostat_v2"
| "kind_of (Sampler_dist s) = K_dist"

definition chain_kinds :: "LlamaState \<Rightarrow> stage_kind list" where
  "chain_kinds state = (case sampler state of None \<Rightarrow> [] | Some ch \<Rightarrow> map kind_of ch)"

section \<open>UTF-8 helpers (lines 146-178)\<close>

text \<open>Text is a sequence of bytes: \<^typ>\<open>string\<close> is a list of 8-bit characters.\<close>

definition utf8_char_length :: "char \<Rightarrow> nat" where
  "utf8_char_length first_byte =
     (let b = (of_char first_byte :: 8 word) in
      if b AND 0x80 = 0x00 then 1
      else if b AND 0xE0 = 0xC0 then 2
      else if b AND 0xF0 = 0xE0 then 3
      else if b AND 0xF8 = 0xF0 then 4
      else 1)"

text \<open>The \<^verbatim>\<open>while (pos < max_pos)\<close> loop of \<^verbatim>\<open>find_last_utf8_boundary\<close>. The read
  \<^verbatim>\<open>str[pos]\<close> is in range because \<open>max_pos\<close> has been capped at the length.\<close>

function find_last_utf8_boundary_loop :: "string \<Rightarrow> nat \<Rightarrow> nat \<Rightarrow> nat \<Rightarrow> nat" where
  "find_last_utf8_boundary_loop str max_pos pos last_valid =
     (if pos < max_pos
      then (if pos + utf8_char_length (str ! pos) \<le> max_pos
            then find_last_utf8_boundary_loop str max_pos
                   (pos + utf8_char_length (str ! pos)) (pos + utf8_char_length (str ! pos))
            else last_valid)
      else last_valid)"
  by pat_completeness auto
termination
  by (relation "measure (\<lambda>(str, max_pos, pos, last_valid). max_pos - pos)")
     (auto simp: utf8_char_length_def Let_def)

declare find_last_utf8_boundary_loop.simps [simp del]

definition find_last_utf8_boundary :: "string \<Rightarrow> nat \<Rightarrow> nat" where
  "find_last_utf8_boundary str max_pos =
     find_last_utf8_boundary_loop str (if max_pos \<ge> length str then length str else max_pos) 0 0"

section \<open>String primitives used by the generation loop\<close>

text \<open>\<^verbatim>\<open>std::string::find(needle)\<close>: the least index at which \<open>needle\<close> occurs, \<open>None\<close>
  for \<^verbatim>\<open>npos\<close>.\<close>

fun str_find :: "string \<Rightarrow> string \<Rightarrow> nat option" where
  "str_find [] needle = (if needle = [] then Some 0 else None)"
| "str_find (c # cs) needle =
     (if prefix needle (c # cs) then Some 0 else map_option Suc (str_find cs needle))"

text \<open>What a NUL-terminated read of a buffer sees (\<^verbatim>\<open>Tcl_NewStringObj(p, -1)\<close>).\<close>

definition c_str :: "string \<Rightarrow> string" where
  "c_str s = takeWhile (\<lambda>c. c \<noteq> CHR 0x00) s"

text \<open>Lines 251-255: the five searches of the tier-3 test.\<close>

definition found_tag :: "string \<Rightarrow> bool" where
  "found_tag text_buffer =
     (str_find text_buffer ''<end_of_turn>'' \<noteq> None \<or>
      str_find text_buffer ''<start_of_turn>'' \<noteq> None \<or>
      str_find text_buffer ''<|im_end|>'' \<noteq> None \<or>
      str_find text_buffer ''<|eot_id|>'' \<noteq> None \<or>
      str_find text_buffer ''<|endoftext|>'' \<noteq> None)"

definition tags :: "string list" where
  "tags = [''<end_of_turn>'', ''<start_of_turn>'', ''<|im_end|>'', ''<|eot_id|>'',
           ''<|endoftext|>'']"

text \<open>Lines 272-279: the \<^verbatim>\<open>for\<close> loop over \<^verbatim>\<open>tags\<close>, which stops at the first tag of the
  array that occurs in the buffer.\<close>

fun tag_pos_loop :: "string \<Rightarrow> string list \<Rightarrow> nat option" where
  "tag_pos_loop text_buffer [] = None"
| "tag_pos_loop text_buffer (t # ts) =
     (case str_find text_buffer t of
        Some pos \<Rightarrow> Some pos
      | None \<Rightarrow> tag_pos_loop text_buffer ts)"

definition partial_tags :: "string list" where
  "partial_tags = [''<end'', ''<start'', ''<|im'', ''<|eot'']"

text \<open>Lines 349-354: the \<^verbatim>\<open>for\<close> loop over \<^verbatim>\<open>partial_tags\<close>.\<close>

fun has_partial_tag_loop :: "string \<Rightarrow> string list \<Rightarrow> bool" where
  "has_partial_tag_loop text_buffer [] = False"
| "has_partial_tag_loop text_buffer (t # ts) =
     (if str_find text_buffer t \<noteq> None then True else has_partial_tag_loop text_buffer ts)"

section \<open>The generation loop (run_inference, lines 181-375)\<close>

text \<open>
  What the backend answers for the token sampled in one iteration: its id, the two
  vocabulary predicates (\<^verbatim>\<open>llama_vocab_is_eog\<close>, the CONTROL attribute), its text piece,
  and whether \<^verbatim>\<open>llama_decode\<close> of the one-token batch succeeds. The backend of a run is
  the sequence of these answers, indexed by the number of tokens accepted so far.
\<close>

record sampled_token =
  tok_id :: int
  tok_is_eog :: bool
  tok_is_control :: bool
  tok_piece :: string
  tok_decode_ok :: bool

text \<open>\<^verbatim>\<open>llama_token_to_piece\<close> with a buffer of \<open>cap\<close> bytes: the number of bytes written,
  or a negative number when the piece does not fit.\<close>

definition llama_token_to_piece :: "string \<Rightarrow> nat \<Rightarrow> int" where
  "llama_token_to_piece piece cap =
     (if length piece \<le> cap then int (length piece) else - int (length piece))"

text \<open>
  The sink: a callback is called with the number of its earlier invocations and the
  fragment, and answers whether it succeeded (\<^verbatim>\<open>TCL_OK\<close>). \<open>delivered\<close> records the
  fragments handed to it, in order.
\<close>

type_synonym callback = "nat \<Rightarrow> string \<Rightarrow> bool"

record loop_vars =
  lv_n_past :: int
  lv_text_buffer :: string
  lv_resp :: string
  lv_delivered :: "string list"

datatype exit_reason =
    Budget_exhausted | Context_full | Stop_eog | Stop_control | Stop_id | Stop_marker
  | Callback_error | Decode_error

datatype loop_step = Continue loop_vars | Break exit_reason loop_vars

text \<open>Lines 281-299: the emit of the text before the tag. The result of the callback is
  not inspected.\<close>

definition tier3_emit :: "callback option \<Rightarrow> loop_vars \<Rightarrow> loop_vars" where
  "tier3_emit cb_name lv =
     (case tag_pos_loop (lv_text_buffer lv) tags of
        None \<Rightarrow> lv
      | Some tag_pos \<Rightarrow>
          (let before_tag = take tag_pos (lv_text_buffer lv) in
           if before_tag = [] then lv
           else (let safe_len = find_last_utf8_boundary before_tag (length before_tag) in
                 if safe_len > 0
                 then lv\<lparr> lv_resp := lv_resp lv @ take safe_len before_tag,
                          lv_delivered :=
                            (case cb_name of
                               None \<Rightarrow> lv_delivered lv
                             | Some cb \<Rightarrow> lv_delivered lv @ [take safe_len before_tag]) \<rparr>
                 else lv)))"

text \<open>Lines 304-326: the flush of everything but the last 20 bytes.\<close>

definition margin_flush :: "callback option \<Rightarrow> loop_vars \<Rightarrow> loop_step" where
  "margin_flush cb_name lv =
     (if length (lv_text_buffer lv) > 20
      then (let safe_len = find_last_utf8_boundary (lv_text_buffer lv)
                             (length (lv_text_buffer lv) - 20) in
            if safe_len > 0
            then (let safe_part = take safe_len (lv_text_buffer lv);
                      lv1 = lv\<lparr> lv_resp := lv_resp lv @ safe_part \<rparr>
                  in case cb_name of
                       None \<Rightarrow> Continue (lv1\<lparr> lv_text_buffer := drop safe_len (lv_text_buffer lv) \<rparr>)
                     | Some cb \<Rightarrow>
                         (if cb (length (lv_delivered lv)) (c_str safe_part)
                          then Continue
                                 (lv1\<lparr> lv_delivered := lv_delivered lv @ [c_str safe_part],
                                       lv_text_buffer := drop safe_len (lv_text_buffer lv) \<rparr>)
                          else Break Callback_error
                                 (lv1\<lparr> lv_delivered := lv_delivered lv @ [c_str safe_part] \<rparr>)))
            else Continue lv)
      else Continue lv)"

text \<open>Lines 233-327: the text handling of an accepted token.\<close>

definition text_step :: "callback option \<Rightarrow> string \<Rightarrow> loop_vars \<Rightarrow> loop_step" where
  "text_step cb_name piece lv =
     (let n = llama_token_to_piece piece 511 in
      if n > 0 \<and> n < 512
      then (let appended = lv_text_buffer lv @ piece;
                text_buffer = (if length appended > 50
                               then drop (length appended - 50) appended else appended);
                lv1 = lv\<lparr> lv_text_buffer := text_buffer \<rparr>
            in if found_tag text_buffer
               then Break Stop_marker (tier3_emit cb_name lv1)
               else margin_flush cb_name lv1)
      else Continue lv)"

text \<open>Lines 329-339: the one-token batch is filled at \<open>n_past\<close>, \<open>n_past\<close> is incremented,
  then the batch is decoded.\<close>

definition decode_step :: "sampled_token \<Rightarrow> loop_vars \<Rightarrow> loop_step" where
  "decode_step tok lv =
     (let lv1 = lv\<lparr> lv_n_past := lv_n_past lv + 1 \<rparr>
      in if tok_decode_ok tok then Continue lv1 else Break Decode_error lv1)"

text \<open>One iteration of the \<^verbatim>\<open>while\<close> body up to, and without, \<^verbatim>\<open>p_cnt++\<close>. The debug
  print under \<^verbatim>\<open>verbose\<close> writes to stderr only and is left out. \<open>ctx_size\<close> is \<^verbatim>\<open>state->n_ctx\<close>.\<close>

definition loop_body ::
  "callback option \<Rightarrow> int list \<Rightarrow> int \<Rightarrow> sampled_token \<Rightarrow> loop_vars \<Rightarrow> loop_step" where
  "loop_body cb_name stop_ids ctx_size tok lv =
     (if lv_n_past lv \<ge> ctx_size then Break Context_full lv
      else if tok_is_eog tok then Break Stop_eog lv
      else if tok_is_control tok then Break Stop_control lv
      else if tok_id tok \<in> set stop_ids then Break Stop_id lv
      else (case text_step cb_name (tok_piece tok) lv of
              Continue lv1 \<Rightarrow> decode_step tok lv1
            | Break r lv1 \<Rightarrow> Break r lv1))"

function run_loop ::
  "(nat \<Rightarrow> sampled_token) \<Rightarrow> callback option \<Rightarrow> int list \<Rightarrow> int \<Rightarrow> int \<Rightarrow> nat \<Rightarrow> loop_vars
     \<Rightarrow> exit_reason \<times> nat \<times> loop_vars" where
  "run_loop backend cb_name stop_ids ctx_size max_tokens p_cnt lv =
     (if int p_cnt < max_tokens
      then (case loop_body cb_name stop_ids ctx_size (backend p_cnt) lv of
              Continue lv1 \<Rightarrow> run_loop backend cb_name stop_ids ctx_size max_tokens (p_cnt + 1) lv1
            | Break r lv1 \<Rightarrow> (r, p_cnt, lv1))
      else (Budget_exhausted, p_cnt, lv))"
  by pat_completeness auto
termination
  by (relation "measure (\<lambda>(backend, cb_name, stop_ids, ctx_size, max_tokens, p_cnt, lv).
                           nat max_tokens - p_cnt)")
     auto

declare run_loop.simps [simp del]

text \<open>The loop variables with which iteration \<open>k\<close> of the \<^verbatim>\<open>while\<close> loop starts, counted
  from 0; \<open>None\<close> when the loop has been left before. \<open>lv0\<close> are the variables at the entry
  of the loop.\<close>

fun loop_vars_at ::
  "(nat \<Rightarrow> sampled_token) \<Rightarrow> callback option \<Rightarrow> int list \<Rightarrow> int \<Rightarrow> int \<Rightarrow> loop_vars \<Rightarrow> nat
     \<Rightarrow> loop_vars option" where
  "loop_vars_at backend cb_name stop_ids ctx_size max_tokens lv0 0 = Some lv0"
| "loop_vars_at backend cb_name stop_ids ctx_size max_tokens lv0 (Suc k) =
     (case loop_vars_at backend cb_name stop_ids ctx_size max_tokens lv0 k of
        None \<Rightarrow> None
      | Some lv \<Rightarrow>
          (if int k < max_tokens
           then (case loop_body cb_name stop_ids ctx_size (backend k) lv of
                   Continue lv1 \<Rightarrow> Some lv1
                 | Break r lv1 \<Rightarrow> None)
           else None))"

text \<open>Lines 343-366: the flush after the loop. The buffer is handed over as it is; the
  result of the callback is not inspected.\<close>

definition final_flush :: "callback option \<Rightarrow> loop_vars \<Rightarrow> loop_vars" where
  "final_flush cb_name lv =
     (if lv_text_buffer lv \<noteq> []
      then (if \<not> has_partial_tag_loop (lv_text_buffer lv) partial_tags
            then lv\<lparr> lv_resp := lv_resp lv @ lv_text_buffer lv,
                     lv_delivered :=
                       (case cb_name of
                          None \<Rightarrow> lv_delivered lv
                        | Some cb \<Rightarrow> lv_delivered lv @ [c_str (lv_text_buffer lv)]) \<rparr>
            else lv)
      else lv)"

datatype call_error =
    Callback_failed | Decode_failed_during_generation | Decode_failed | Tokenization_failed
  | Context_overflow

text \<open>What a call leaves behind: the Tcl return (\<open>Inl\<close> is \<^verbatim>\<open>TCL_ERROR\<close>, \<open>Inr\<close> the result
  string of \<^verbatim>\<open>TCL_OK\<close>), the session, the fragments the callback was called with, and for
  the loop the way it was left and its final \<^verbatim>\<open>p_cnt\<close>.\<close>

record inference_out =
  io_result :: "call_error + string"
  io_state :: LlamaState
  io_delivered :: "string list"
  io_exit :: exit_reason
  io_p_cnt :: nat

definition max_tokens_of :: "LlamaState \<Rightarrow> int" where
  "max_tokens_of state = (if n_predict state > 0 then n_predict state else 4096)"

definition run_inference ::
  "(nat \<Rightarrow> sampled_token) \<Rightarrow> callback option \<Rightarrow> int list \<Rightarrow> LlamaState \<Rightarrow> inference_out" where
  "run_inference backend cb_name stop_ids state =
     (case run_loop backend cb_name stop_ids (n_ctx state) (max_tokens_of state) 0
             \<lparr> lv_n_past = n_past state, lv_text_buffer = [], lv_resp = [], lv_delivered = [] \<rparr>
      of (r, p_cnt, lv) \<Rightarrow>
        if r = Callback_error
        then \<lparr> io_result = Inl Callback_failed, io_state = state\<lparr> n_past := lv_n_past lv \<rparr>,
               io_delivered = lv_delivered lv, io_exit = r, io_p_cnt = p_cnt \<rparr>
        else if r = Decode_error
        then \<lparr> io_result = Inl Decode_failed_during_generation,
               io_state = state\<lparr> n_past := lv_n_past lv \<rparr>,
               io_delivered = lv_delivered lv, io_exit = r, io_p_cnt = p_cnt \<rparr>
        else (let lv1 = final_flush cb_name lv
              in \<lparr> io_result = Inr (c_str (lv_resp lv1)),
                   io_state = state\<lparr> n_past := lv_n_past lv, n_gen := int p_cnt \<rparr>,
                   io_delivered = lv_delivered lv1, io_exit = r, io_p_cnt = p_cnt \<rparr>))"

section \<open>llama::generate (Llama_Generate_Cmd, lines 423-474)\<close>

text \<open>
  The backend of one call: the tokenizer (\<open>None\<close> when it fails), the answer of
  \<^verbatim>\<open>llama_decode\<close> to the prompt batch, given as the list of its entries (token, position,
  logits flag), and the tokens the sampler yields during generation.
\<close>

record llama_backend =
  be_tokenize :: "string \<Rightarrow> bool \<Rightarrow> int list option"
  be_decode_prompt :: "(int \<times> int \<times> bool) list \<Rightarrow> bool"
  be_sample :: "nat \<Rightarrow> sampled_token"

text \<open>The locals that the argument loop (lines 397-421) has filled when line 423 is
  reached; the session passed along is the one that loop has left.\<close>

record generate_args =
  ga_prompt :: string
  ga_cb_name :: "callback option"
  ga_system_msg :: "string option"
  ga_reset :: bool
  ga_stop_ids :: "int list"

record cmd_out =
  co_result :: "call_error + string"
  co_state :: LlamaState
  co_delivered :: "string list"

text \<open>Lines 429-434. \<open>pos\<close> is \<^verbatim>\<open>state->n_past\<close>.\<close>

definition full_prompt_of :: "string option \<Rightarrow> string \<Rightarrow> int \<Rightarrow> string" where
  "full_prompt_of system_msg prompt pos =
     (case system_msg of
        None \<Rightarrow> prompt
      | Some sys \<Rightarrow>
          (if length sys > 0 \<and> pos = 0 then sys @ [CHR 0x0A, CHR 0x0A] @ prompt else prompt))"

text \<open>\<^verbatim>\<open>llama_tokenize\<close> into a buffer of \<open>cap\<close> tokens: the count and the tokens, a
  negative count when the tokenizer fails or the tokens do not fit.\<close>

definition llama_tokenize ::
  "(string \<Rightarrow> bool \<Rightarrow> int list option) \<Rightarrow> string \<Rightarrow> nat \<Rightarrow> bool \<Rightarrow> int \<times> int list" where
  "llama_tokenize tk text cap add_special =
     (case tk text add_special of
        None \<Rightarrow> (-1, [])
      | Some toks \<Rightarrow>
          (if length toks \<le> cap then (int (length toks), toks) else (- int (length toks), [])))"

text \<open>Lines 457-461: the batch entries, the last one alone asking for logits.\<close>

fun fill_prompt_batch :: "int list \<Rightarrow> int \<Rightarrow> (int \<times> int \<times> bool) list" where
  "fill_prompt_batch [] pos = []"
| "fill_prompt_batch (t # ts) pos = (t, pos, ts = []) # fill_prompt_batch ts (pos + 1)"

text \<open>Lines 436-474, for the prompt text built before.\<close>

definition ingest_and_generate ::
  "llama_backend \<Rightarrow> callback option \<Rightarrow> int list \<Rightarrow> LlamaState \<Rightarrow> string \<Rightarrow> cmd_out" where
  "ingest_and_generate be cb_name stop_ids state full_prompt =
     (case llama_tokenize (be_tokenize be) full_prompt (length full_prompt + 256)
             (n_past state = 0)
      of (n_tok, tokens) \<Rightarrow>
        if n_tok < 0
        then \<lparr> co_result = Inl Tokenization_failed, co_state = state, co_delivered = [] \<rparr>
        else if n_past state + n_tok \<ge> n_ctx state
        then \<lparr> co_result = Inl Context_overflow, co_state = state, co_delivered = [] \<rparr>
        else (let batch = fill_prompt_batch tokens (n_past state);
                  state1 = state\<lparr> n_past := n_past state + n_tok \<rparr>
              in if \<not> be_decode_prompt be batch
                 then \<lparr> co_result = Inl Decode_failed, co_state = state1, co_delivered = [] \<rparr>
                 else (let out = run_inference (be_sample be) cb_name stop_ids
                                   (state1\<lparr> n_eval := n_tok \<rparr>)
                       in \<lparr> co_result = io_result out, co_state = io_state out,
                            co_delivered = io_delivered out \<rparr>)))"

text \<open>Lines 423-426: the \<^verbatim>\<open>-reset\<close> option puts the position back to 0 (and clears the
  cache of the backend, which is not represented).\<close>

definition reset_session :: "bool \<Rightarrow> LlamaState \<Rightarrow> LlamaState" where
  "reset_session reset state = (if reset then state\<lparr> n_past := 0 \<rparr> else state)"

definition Llama_Generate_Cmd :: "llama_backend \<Rightarrow> generate_args \<Rightarrow> LlamaState \<Rightarrow> cmd_out" where
  "Llama_Generate_Cmd be args state0 =
     (let state = reset_session (ga_reset args) state0
      in ingest_and_generate be (ga_cb_name args) (ga_stop_ids args) state
           (full_prompt_of (ga_system_msg args) (ga_prompt args) (n_past state)))"

section \<open>Synthetic backends and sessions for concrete runs\<close>

text \<open>A conversion to single precision for concrete runs: magnitudes of at most
  \<open>2 ^ -150\<close> become zero, as they do in the binary32 format; every other number is kept,
  which is what the format does with the numbers of the runs below.\<close>

definition underflowing_cast :: "real \<Rightarrow> real" where
  "underflowing_cast d = (if \<bar>d\<bar> \<le> 1 / 2 ^ 150 then 0 else d)"

definition default_state :: LlamaState where
  "default_state = set_defaults zeroed_state"

text \<open>An ordinary token with the given text piece whose decode succeeds, and an
  end-of-generation token.\<close>

definition text_token :: "string \<Rightarrow> sampled_token" where
  "text_token p =
     \<lparr> tok_id = 100, tok_is_eog = False, tok_is_control = False, tok_piece = p,
       tok_decode_ok = True \<rparr>"

definition eog_token :: sampled_token where
  "eog_token =
     \<lparr> tok_id = 1, tok_is_eog = True, tok_is_control = False, tok_piece = [],
       tok_decode_ok = True \<rparr>"

text \<open>The backend that yields the given pieces one after the other and then signals the
  end of generation.\<close>

definition scripted_backend :: "string list \<Rightarrow> nat \<Rightarrow> sampled_token" where
  "scripted_backend ps i = (if i < length ps then text_token (ps ! i) else eog_token)"

text \<open>The same, but the decode of every token fails.\<close>

definition failing_decode_backend :: "string list \<Rightarrow> nat \<Rightarrow> sampled_token" where
  "failing_decode_backend ps i = (scripted_backend ps i)\<lparr> tok_decode_ok := False \<rparr>"

definition accepting_callback :: callback where
  "accepting_callback i fragment = True"

definition fails_on_second_call :: callback where
  "fails_on_second_call i fragment = (i \<noteq> 1)"

text \<open>A backend whose tokenizer yields one token per byte and whose prompt decode fails.\<close>

definition rejecting_backend :: llama_backend where
  "rejecting_backend =
     \<lparr> be_tokenize = (\<lambda>text add_special. Some (map (\<lambda>c. of_char c) text)),
       be_decode_prompt = (\<lambda>batch. False),
       be_sample = scripted_backend [] \<rparr>"

definition accepting_backend :: llama_backend where
  "accepting_backend =
     \<lparr> be_tokenize = (\<lambda>text add_special. Some (map (\<lambda>c. of_char c) text)),
       be_decode_prompt = (\<lambda>batch. True),
       be_sample = scripted_backend [] \<rparr>"

text \<open>A backend whose tokenizer yields one token per byte and whose prompt decode
  succeeds for the expected batch only.\<close>

definition checking_backend :: "(int \<times> int \<times> bool) list \<Rightarrow> llama_backend" where
  "checking_backend expected =
     \<lparr> be_tokenize = (\<lambda>text add_special. Some (map (\<lambda>c. of_char c) text)),
       be_decode_prompt = (\<lambda>batch. batch = expected),
       be_sample = scripted_backend [] \<rparr>"

text \<open>Arguments of a call without callback, reset or stop ids.\<close>

definition plain_args :: "string \<Rightarrow> string option \<Rightarrow> generate_args" where
  "plain_args prompt system_msg =
     \<lparr> ga_prompt = prompt, ga_cb_name = None, ga_system_msg = system_msg, ga_reset = False,
       ga_stop_ids = [] \<rparr>"

text \<open>The number of tokens the loop has sampled when it is left: the accepted ones, and
  the one in hand unless the loop stopped before sampling.\<close>

definition n_sampled :: "inference_out \<Rightarrow> nat" where
  "n_sampled out =
     io_p_cnt out +
       (if io_exit out = Budget_exhausted \<or> io_exit out = Context_full then 0 else 1)"

section \<open>Position bookkeeping of the loop\<close>

text \<open>The text handling never touches the position; an iteration that runs to its end
  has advanced it by one; an iteration that leaves the loop has advanced it only when it
  leaves through the failed decode.\<close>

lemma tier3_emit_n_past: "lv_n_past (tier3_emit cb lv) = lv_n_past lv"
  by (simp add: tier3_emit_def Let_def split: option.splits)

lemma margin_flush_Continue: "margin_flush cb lv = Continue lv1 \<Longrightarrow> lv_n_past lv1 = lv_n_past lv"
  by (auto simp: margin_flush_def Let_def split: if_splits option.splits)

lemma margin_flush_Break:
  "margin_flush cb lv = Break r lv1 \<Longrightarrow> lv_n_past lv1 = lv_n_past lv \<and> r = Callback_error"
  by (auto simp: margin_flush_def Let_def split: if_splits option.splits)

lemma text_step_Continue: "text_step cb piece lv = Continue lv1 \<Longrightarrow> lv_n_past lv1 = lv_n_past lv"
  by (auto simp: text_step_def Let_def dest: margin_flush_Continue split: if_splits)

lemma text_step_Break:
  "text_step cb piece lv = Break r lv1 \<Longrightarrow>
     lv_n_past lv1 = lv_n_past lv \<and> (r = Callback_error \<or> r = Stop_marker)"
  by (auto simp: text_step_def Let_def tier3_emit_n_past dest: margin_flush_Break split: if_splits)

lemma loop_body_Continue:
  "loop_body cb stops ctx tok lv = Continue lv1 \<Longrightarrow>
     lv_n_past lv1 = lv_n_past lv + 1 \<and> lv_n_past lv < ctx \<and> tok_decode_ok tok"
  by (auto simp: loop_body_def decode_step_def Let_def dest: text_step_Continue
      split: if_splits loop_step.splits)

lemma loop_body_Break:
  "loop_body cb stops ctx tok lv = Break r lv1 \<Longrightarrow>
     r \<noteq> Budget_exhausted \<and>
     lv_n_past lv1 = lv_n_past lv + (if r = Decode_error then 1 else 0) \<and>
     (if r = Context_full then lv_n_past lv \<ge> ctx else lv_n_past lv < ctx) \<and>
     (if r = Decode_error then \<not> tok_decode_ok tok else True)"
  by (auto simp: loop_body_def decode_step_def Let_def dest: text_step_Continue text_step_Break
      split: if_splits loop_step.splits)

lemma run_loop_invariant:
  "run_loop bk cb stops ctx mx p lv = (r, p', lv') \<Longrightarrow>
     p \<le> p' \<and>
     lv_n_past lv' = lv_n_past lv + int (p' - p) + (if r = Decode_error then 1 else 0) \<and>
     (if r = Budget_exhausted then \<not> int p' < mx else int p' < mx) \<and>
     (if r = Budget_exhausted \<or> r = Context_full then True
      else lv_n_past lv + int (p' - p) < ctx) \<and>
     (if r = Decode_error then \<not> tok_decode_ok (bk p') else True) \<and>
     (if int p \<le> mx then int p' \<le> mx else True) \<and>
     (if p < p' then lv_n_past lv + int (p' - p) \<le> ctx else True)"
proof (induction bk cb stops ctx mx p lv rule: run_loop.induct)
  case (1 bk cb stops ctx mx p lv)
  show ?case
  proof (cases "int p < mx")
    case False
    with "1.prems" show ?thesis by (simp add: run_loop.simps)
  next
    case True
    show ?thesis
    proof (cases "loop_body cb stops ctx (bk p) lv")
      case (Continue lv1)
      with True "1.prems" have run: "run_loop bk cb stops ctx mx (p + 1) lv1 = (r, p', lv')"
        by (simp add: run_loop.simps)
      from "1.IH"[OF True Continue run] loop_body_Continue[OF Continue] True
      show ?thesis by (auto split: if_splits)
    next
      case (Break r1 lv1)
      with True "1.prems" have "r = r1" "p' = p" "lv' = lv1" by (simp_all add: run_loop.simps)
      with loop_body_Break[OF Break] True show ?thesis by (auto split: if_splits)
    qed
  qed
qed

lemma run_inference_cases:
  obtains r p lv where
    "run_loop bk cb stops (n_ctx st) (max_tokens_of st) 0
       \<lparr> lv_n_past = n_past st, lv_text_buffer = [], lv_resp = [], lv_delivered = [] \<rparr> = (r, p, lv)"
    "io_exit (run_inference bk cb stops st) = r"
    "io_p_cnt (run_inference bk cb stops st) = p"
    "n_past (io_state (run_inference bk cb stops st)) = lv_n_past lv"
    "io_result (run_inference bk cb stops st) =
       (if r = Callback_error then Inl Callback_failed
        else if r = Decode_error then Inl Decode_failed_during_generation
        else Inr (c_str (lv_resp (final_flush cb lv))))"
proof -
  obtain r p lv where run: "run_loop bk cb stops (n_ctx st) (max_tokens_of st) 0
       \<lparr> lv_n_past = n_past st, lv_text_buffer = [], lv_resp = [], lv_delivered = [] \<rparr> = (r, p, lv)"
    by (cases "run_loop bk cb stops (n_ctx st) (max_tokens_of st) 0
       \<lparr> lv_n_past = n_past st, lv_text_buffer = [], lv_resp = [], lv_delivered = [] \<rparr>") auto
  show thesis
    by (rule that[OF run]) (simp_all add: run_inference_def run Let_def)
qed

text \<open>The run of the loop from its entry is the run from any iteration it gets to; an
  iteration that gets to the decode and whose decode fails leaves the loop there.\<close>

lemma loop_vars_at_run:
  "loop_vars_at bk cb stops ctx mx lv0 k = Some lv \<Longrightarrow>
     run_loop bk cb stops ctx mx 0 lv0 = run_loop bk cb stops ctx mx k lv"
proof (induction k arbitrary: lv)
  case 0
  then show ?case by simp
next
  case (Suc k)
  from Suc.prems obtain lv' where at: "loop_vars_at bk cb stops ctx mx lv0 k = Some lv'"
    and guard: "int k < mx" and body: "loop_body cb stops ctx (bk k) lv' = Continue lv"
    by (auto split: option.splits if_splits loop_step.splits)
  from Suc.IH[OF at] have "run_loop bk cb stops ctx mx 0 lv0 = run_loop bk cb stops ctx mx k lv'" .
  also from guard body have "\<dots> = run_loop bk cb stops ctx mx (k + 1) lv"
    by (subst run_loop.simps) simp
  finally show ?case by simp
qed

lemma loop_vars_at_n_past:
  "loop_vars_at bk cb stops ctx mx lv0 k = Some lv \<Longrightarrow> lv_n_past lv = lv_n_past lv0 + int k"
proof (induction k arbitrary: lv)
  case 0
  then show ?case by simp
next
  case (Suc k)
  from Suc.prems obtain lv' where at: "loop_vars_at bk cb stops ctx mx lv0 k = Some lv'"
    and body: "loop_body cb stops ctx (bk k) lv' = Continue lv"
    by (auto split: option.splits if_splits loop_step.splits)
  from Suc.IH[OF at] loop_body_Continue[OF body] show ?case by simp
qed

lemma failed_decode_leaves_loop:
  assumes "int k < mx" "lv_n_past lv < ctx" "\<not> tok_is_eog (bk k)" "\<not> tok_is_control (bk k)"
    "tok_id (bk k) \<notin> set stops" "text_step cb (tok_piece (bk k)) lv = Continue lv1"
    "\<not> tok_decode_ok (bk k)"
  shows "run_loop bk cb stops ctx mx k lv = (Decode_error, k, lv1\<lparr> lv_n_past := lv_n_past lv1 + 1 \<rparr>)"
proof -
  from assms have "loop_body cb stops ctx (bk k) lv = Break Decode_error (lv1\<lparr> lv_n_past := lv_n_past lv1 + 1 \<rparr>)"
    by (simp add: loop_body_def decode_step_def)
  with assms(1) show ?thesis by (subst run_loop.simps) simp
qed

section \<open>The prompt batch\<close>

text \<open>Entry \<open>i\<close> of the batch is token \<open>i\<close> at position \<open>pos + i\<close>, and the last entry alone
  asks for logits.\<close>

lemma fill_prompt_batch_nth:
  "i < length toks \<Longrightarrow>
     fill_prompt_batch toks pos ! i = (toks ! i, pos + int i, Suc i = length toks)"
proof (induction toks arbitrary: pos i)
  case Nil
  then show ?case by simp
next
  case (Cons t ts)
  show ?case
  proof (cases i)
    case 0
    then show ?thesis by auto
  next
    case (Suc j)
    with Cons.prems have "j < length ts" by simp
    from Cons.IH[OF this, of "pos + 1"] Suc show ?thesis by simp
  qed
qed

lemma length_fill_prompt_batch: "length (fill_prompt_batch toks pos) = length toks"
  by (induction toks arbitrary: pos) simp_all

lemma fill_prompt_batch_eq:
  "fill_prompt_batch toks pos =
     map (\<lambda>i. (toks ! i, pos + int i, Suc i = length toks)) [0..<length toks]"
  by (rule nth_equalityI) (simp_all add: length_fill_prompt_batch fill_prompt_batch_nth)

section \<open>Searching\<close>



section \<open>A marker arriving in fragments\<close>

text \<open>No proper prefix of the marker contains a tag, and none is longer than the flush
  margin; so the pieces before the last are buffered and decoded, and the last one ends
  the loop.\<close>

lemma marker_take_quiet:
  "list_all (\<lambda>k. \<not> found_tag (take k ''<end_of_turn>'')) [0..<13]"
  by code_simp


lemma marker_prefix_quiet:
  assumes "b @ r = ''<end_of_turn>''" "r \<noteq> []"
  shows "\<not> found_tag b \<and> length b \<le> 12"
proof -
  have "length (b @ r) = 13" unfolding assms(1) by simp
  with assms(2) have len: "length b < 13" by (cases r) auto
  have "b = take (length b) (b @ r)" by simp
  then have b: "b = take (length b) ''<end_of_turn>''" unfolding assms(1) .
  from len have "length b \<in> set [0..<13]" by simp
  with marker_take_quiet have "\<not> found_tag (take (length b) ''<end_of_turn>'')"
    unfolding list_all_iff by blast
  with b len show ?thesis by simp
qed

lemma text_step_quiet:
  assumes "piece \<noteq> []" "length piece < 512" "\<not> found_tag (lv_text_buffer lv @ piece)"
    "length (lv_text_buffer lv @ piece) \<le> 20"
  shows "text_step cb piece lv = Continue (lv\<lparr> lv_text_buffer := lv_text_buffer lv @ piece \<rparr>)"
  using assms by (simp add: text_step_def llama_token_to_piece_def margin_flush_def Let_def)

lemma text_step_marker_complete:
  assumes "piece \<noteq> []" "lv_text_buffer lv @ piece = ''<end_of_turn>''"
  shows "text_step cb piece lv = Break Stop_marker (lv\<lparr> lv_text_buffer := ''<end_of_turn>'' \<rparr>)"
proof -
  have "length (lv_text_buffer lv @ piece) = 13" unfolding assms(2) by simp
  then have len: "length piece \<le> 13" by simp
  have ft: "found_tag ''<end_of_turn>''" by (simp add: found_tag_def)
  have tp: "tag_pos_loop ''<end_of_turn>'' tags = Some 0" by (simp add: tags_def)
  have t3: "tier3_emit cb (lv\<lparr> lv_text_buffer := ''<end_of_turn>'' \<rparr>) = lv\<lparr> lv_text_buffer := ''<end_of_turn>'' \<rparr>"
    by (simp add: tier3_emit_def tp del: take_eq_Nil)
  from assms(1) len have n: "llama_token_to_piece piece 511 = int (length piece)" "0 < length piece"
    by (simp_all add: llama_token_to_piece_def)
  show ?thesis
    unfolding text_step_def Let_def n assms(2) using n(2) len ft t3 by simp
qed


lemma marker_run:
  assumes "ps \<noteq> []" "[] \<notin> set ps" "lv_text_buffer lv @ concat ps = ''<end_of_turn>''"
    and "\<forall>i<length ps. tok_piece (bk (p + i)) = ps ! i \<and> \<not> tok_is_eog (bk (p + i))
           \<and> \<not> tok_is_control (bk (p + i)) \<and> tok_id (bk (p + i)) \<notin> set stops"
    and "\<forall>i<length ps - 1. tok_decode_ok (bk (p + i))"
    and "int (p + length ps) \<le> mx" "lv_n_past lv + int (length ps) \<le> ctx"
  shows "run_loop bk cb stops ctx mx p lv =
           (Stop_marker, p + length ps - 1,
            lv\<lparr> lv_text_buffer := ''<end_of_turn>'',
                lv_n_past := lv_n_past lv + int (length ps) - 1 \<rparr>)"
  using assms
proof (induction ps arbitrary: p lv)
  case Nil
  then show ?case by simp
next
  case (Cons x xs)
  from Cons.prems(2) have x: "x \<noteq> []" by auto
  from Cons.prems(4) have tok: "tok_piece (bk p) = x" "\<not> tok_is_eog (bk p)"
    "\<not> tok_is_control (bk p)" "tok_id (bk p) \<notin> set stops"
    by force+
  from Cons.prems(6,7) have guard: "int p < mx" "lv_n_past lv < ctx" by simp_all
  show ?case
  proof (cases "xs = []")
    case True
    with Cons.prems(3) have "lv_text_buffer lv @ x = ''<end_of_turn>''" by simp
    from text_step_marker_complete[OF x this]
    have "loop_body cb stops ctx (bk p) lv =
            Break Stop_marker (lv\<lparr> lv_text_buffer := ''<end_of_turn>'' \<rparr>)"
      using tok guard by (simp add: loop_body_def)
    with guard True show ?thesis by (simp add: run_loop.simps)
  next
    case False
    with Cons.prems(2) have rest: "concat xs \<noteq> []" by (cases xs) auto
    from Cons.prems(3) have split: "(lv_text_buffer lv @ x) @ concat xs = ''<end_of_turn>''"
      by simp
    from marker_prefix_quiet[OF split rest]
    have quiet: "\<not> found_tag (lv_text_buffer lv @ x)" "length (lv_text_buffer lv @ x) \<le> 20"
      by simp_all
    then have "length x < 512" by simp
    from text_step_quiet[OF x this quiet]
    have ts: "text_step cb x lv = Continue (lv\<lparr> lv_text_buffer := lv_text_buffer lv @ x \<rparr>)" .
    from Cons.prems(5) False have dec: "tok_decode_ok (bk p)" by (cases xs) auto
    define lv1 where "lv1 = lv\<lparr> lv_text_buffer := lv_text_buffer lv @ x,
                                lv_n_past := lv_n_past lv + 1 \<rparr>"
    have body: "loop_body cb stops ctx (bk p) lv = Continue lv1"
      using tok guard ts dec by (simp add: loop_body_def decode_step_def lv1_def)
    have p4: "\<forall>i<length xs. tok_piece (bk (p + 1 + i)) = xs ! i \<and> \<not> tok_is_eog (bk (p + 1 + i))
           \<and> \<not> tok_is_control (bk (p + 1 + i)) \<and> tok_id (bk (p + 1 + i)) \<notin> set stops"
    proof (intro allI impI)
      fix i assume "i < length xs"
      then have "Suc i < length (x # xs)" by simp
      with Cons.prems(4) have "tok_piece (bk (p + Suc i)) = (x # xs) ! Suc i
           \<and> \<not> tok_is_eog (bk (p + Suc i))
           \<and> \<not> tok_is_control (bk (p + Suc i)) \<and> tok_id (bk (p + Suc i)) \<notin> set stops"
        by blast
      then show "tok_piece (bk (p + 1 + i)) = xs ! i \<and> \<not> tok_is_eog (bk (p + 1 + i))
           \<and> \<not> tok_is_control (bk (p + 1 + i)) \<and> tok_id (bk (p + 1 + i)) \<notin> set stops"
        by simp
    qed
    have p5: "\<forall>i<length xs - 1. tok_decode_ok (bk (p + 1 + i))"
    proof (intro allI impI)
      fix i assume "i < length xs - 1"
      then have "Suc i < length (x # xs) - 1" by simp
      with Cons.prems(5) have "tok_decode_ok (bk (p + Suc i))" by blast
      then show "tok_decode_ok (bk (p + 1 + i))" by simp
    qed
    have ih: "run_loop bk cb stops ctx mx (p + 1) lv1 =
           (Stop_marker, p + 1 + length xs - 1,
            lv1\<lparr> lv_text_buffer := ''<end_of_turn>'',
                 lv_n_past := lv_n_past lv1 + int (length xs) - 1 \<rparr>)"
    proof (rule Cons.IH[OF False _ _ p4 p5])
      show "[] \<notin> set xs" using Cons.prems(2) by simp
      show "lv_text_buffer lv1 @ concat xs = ''<end_of_turn>''"
        using Cons.prems(3) by (simp add: lv1_def)
      show "int (p + 1 + length xs) \<le> mx" using Cons.prems(6) by simp
      show "lv_n_past lv1 + int (length xs) \<le> ctx" using Cons.prems(7) by (simp add: lv1_def)
    qed
    have "run_loop bk cb stops ctx mx p lv = run_loop bk cb stops ctx mx (p + 1) lv1"
      using guard body by (subst run_loop.simps) simp
    with ih False show ?thesis by (simp add: lv1_def)
  qed
qed

section \<open>The boundary scan\<close>

text \<open>The scan returns a position within its bound, and the prefix it cuts off is closed
  under its own rule: scanning the prefix again consumes all of it. This is what the
  tier-3 emit and the margin flush rely on.\<close>

lemma boundary_loop_bounds:
  "last_valid = pos \<Longrightarrow> pos \<le> max_pos \<Longrightarrow>
     pos \<le> find_last_utf8_boundary_loop str max_pos pos last_valid
     \<and> find_last_utf8_boundary_loop str max_pos pos last_valid \<le> max_pos"
proof (induction str max_pos pos last_valid rule: find_last_utf8_boundary_loop.induct)
  case (1 str max_pos pos last_valid)
  show ?case
  proof (cases "pos < max_pos \<and> pos + utf8_char_length (str ! pos) \<le> max_pos")
    case True
    with "1.IH" have "pos + utf8_char_length (str ! pos)
        \<le> find_last_utf8_boundary_loop str max_pos (pos + utf8_char_length (str ! pos))
             (pos + utf8_char_length (str ! pos))
      \<and> find_last_utf8_boundary_loop str max_pos (pos + utf8_char_length (str ! pos))
             (pos + utf8_char_length (str ! pos)) \<le> max_pos"
      by simp
    with True show ?thesis
      by (subst (1 2) find_last_utf8_boundary_loop.simps) simp
  next
    case False
    with "1.prems" show ?thesis
      by (subst (1 2) find_last_utf8_boundary_loop.simps) auto
  qed
qed

lemma boundary_loop_prefix:
  "last_valid = pos \<Longrightarrow> pos \<le> max_pos \<Longrightarrow> max_pos \<le> length str \<Longrightarrow>
     find_last_utf8_boundary_loop
       (take (find_last_utf8_boundary_loop str max_pos pos last_valid) str)
       (find_last_utf8_boundary_loop str max_pos pos last_valid) pos last_valid
     = find_last_utf8_boundary_loop str max_pos pos last_valid"
proof (induction str max_pos pos last_valid rule: find_last_utf8_boundary_loop.induct)
  case (1 str max_pos pos last_valid)
  let ?n = "pos + utf8_char_length (str ! pos)"
  show ?case
  proof (cases "pos < max_pos \<and> ?n \<le> max_pos")
    case True
    define k where "k = find_last_utf8_boundary_loop str max_pos ?n ?n"
    from True have unfold: "find_last_utf8_boundary_loop str max_pos pos last_valid = k"
      by (subst find_last_utf8_boundary_loop.simps) (simp add: k_def)
    from True boundary_loop_bounds[of ?n ?n max_pos str] have kb: "?n \<le> k" "k \<le> max_pos"
      by (simp_all add: k_def)
    from "1.IH" True "1.prems" have ih: "find_last_utf8_boundary_loop (take k str) k ?n ?n = k"
      by (simp add: k_def)
    have len: "1 \<le> utf8_char_length (str ! pos)" by (simp add: utf8_char_length_def Let_def)
    with kb have pk: "pos < k" by simp
    then have nth: "take k str ! pos = str ! pos" by simp
    have "find_last_utf8_boundary_loop (take k str) k pos last_valid
            = find_last_utf8_boundary_loop (take k str) k ?n ?n"
      using pk kb nth by (subst find_last_utf8_boundary_loop.simps) simp
    with ih unfold show ?thesis by simp
  next
    case False
    then have unfold: "find_last_utf8_boundary_loop str max_pos pos last_valid = pos"
      using "1.prems" by (subst find_last_utf8_boundary_loop.simps) auto
    show ?thesis unfolding unfold using "1.prems"
      by (subst find_last_utf8_boundary_loop.simps) simp
  qed
qed

lemma find_last_utf8_boundary_le:
  "find_last_utf8_boundary str max_pos \<le> max_pos \<and> find_last_utf8_boundary str max_pos \<le> length str"
  using boundary_loop_bounds[of 0 0 "if max_pos \<ge> length str then length str else max_pos" str]
  by (auto simp: find_last_utf8_boundary_def split: if_splits)

lemma boundary_prefix_complete:
  assumes "k = find_last_utf8_boundary str max_pos"
  shows "find_last_utf8_boundary (take k str) (length (take k str)) = length (take k str)"
proof -
  define m where "m = (if max_pos \<ge> length str then length str else max_pos)"
  have k: "k = find_last_utf8_boundary_loop str m 0 0"
    by (simp add: assms find_last_utf8_boundary_def m_def)
  have "m \<le> length str" by (simp add: m_def)
  from boundary_loop_prefix[OF refl _ this, of 0]
  have p: "find_last_utf8_boundary_loop (take k str) k 0 0 = k"
    by (simp add: k)
  from find_last_utf8_boundary_le[of str max_pos] assms have "k \<le> length str" by simp
  then have l: "length (take k str) = k" and mn: "min (length str) k = k" by simp_all
  have "find_last_utf8_boundary (take k str) k = find_last_utf8_boundary_loop (take k str) k 0 0"
    by (simp add: find_last_utf8_boundary_def mn)
  with p l show ?thesis by simp
qed

text \<open>An abort by the callback leaves the token in hand undecoded: the position counts
  the accepted tokens only.\<close>

lemma callback_abort_position:
  "io_exit (run_inference bk cb stops st) = Callback_error \<Longrightarrow>
     io_result (run_inference bk cb stops st) = Inl Callback_failed
     \<and> n_past (io_state (run_inference bk cb stops st))
         = n_past st + int (io_p_cnt (run_inference bk cb stops st))"
proof -
  assume a: "io_exit (run_inference bk cb stops st) = Callback_error"
  obtain r p lv where
    run: "run_loop bk cb stops (n_ctx st) (max_tokens_of st) 0
       \<lparr> lv_n_past = n_past st, lv_text_buffer = [], lv_resp = [], lv_delivered = [] \<rparr> = (r, p, lv)"
    and ex: "io_exit (run_inference bk cb stops st) = r"
    and pc: "io_p_cnt (run_inference bk cb stops st) = p"
    and np: "n_past (io_state (run_inference bk cb stops st)) = lv_n_past lv"
    and res: "io_result (run_inference bk cb stops st) =
       (if r = Callback_error then Inl Callback_failed
        else if r = Decode_error then Inl Decode_failed_during_generation
        else Inr (c_str (lv_resp (final_flush cb lv))))"
    by (rule run_inference_cases)
  from run_loop_invariant[OF run] a ex pc np res show ?thesis by simp
qed

section \<open>Sampler chain and option clamping\<close>

text \<open>
  C5 (as the code has it). Every rebuild of the chain by \<open>apply_options\<close>, for every
  options object and every session, installs the stages in the fixed order temperature,
  top-k, top-p, min-p, penalties, then a mirostat stage exactly when \<open>mirostat\<close> is 1 (v1)
  or 2 (v2), then the distribution-sampling stage last.
\<close>

theorem sampler_chain_order:
  "chain_kinds (apply_options to_float n_vocab options_obj state) =
     [K_temp, K_top_k, K_top_p, K_min_p, K_penalties]
     @ (if mirostat (apply_options to_float n_vocab options_obj state) = 1 then [K_mirostat]
        else if mirostat (apply_options to_float n_vocab options_obj state) = 2 then [K_mirostat_v2]
        else [])
     @ [K_dist]"
  by (simp add: chain_kinds_def apply_options_def build_chain_def Let_def split: option.splits)

text \<open>C5, instance: the chain built at initialisation and the chain built for
  \<open>mirostat = 2\<close>.\<close>

theorem sampler_chain_order_witness:
  "chain_kinds (apply_options underflowing_cast 32000 None default_state) =
     [K_temp, K_top_k, K_top_p, K_min_p, K_penalties, K_dist]
   \<and> chain_kinds (apply_options underflowing_cast 32000 (Some [''mirostat'' \<mapsto> Tcl_Int 2]) default_state) =
     [K_temp, K_top_k, K_top_p, K_min_p, K_penalties, K_mirostat_v2, K_dist]"
proof -
  have a: "mirostat (apply_options underflowing_cast 32000 None default_state) = 0"
    by (simp add: apply_options_def default_state_def set_defaults_def Let_def)
  have b: "mirostat (apply_options underflowing_cast 32000 (Some [''mirostat'' \<mapsto> Tcl_Int 2]) default_state) = 2"
    by (simp add: apply_options_def clamp_options_def extract_options_def GET_D_INT_def Let_def)
  from a b sampler_chain_order [of underflowing_cast 32000 None default_state]
    sampler_chain_order [of underflowing_cast 32000 "Some [''mirostat'' \<mapsto> Tcl_Int 2]" default_state]
  show ?thesis by simp
qed

text \<open>C5 as stated fails: the chain of a freshly initialised session does not start with
  the penalty stage and does not have the temperature stage fifth.\<close>

theorem sampler_chain_penalties_first_counterexample:
  "chain_kinds (apply_options underflowing_cast 32000 None default_state)
     \<noteq> [K_penalties, K_top_k, K_top_p, K_min_p, K_temp, K_dist]"
  by (simp add: chain_kinds_def apply_options_def build_chain_def default_state_def
      set_defaults_def zeroed_state_def)

text \<open>
  C8. After \<open>apply_options\<close> with any options dictionary on any session, whatever the
  conversion to single precision does: the temperature lies in [0, 2], top_k is at least
  1, top_p and min_p lie in [0, 1], the repeat penalty is not negative, n_predict is at
  least -1. The repeat penalty is 1 when the float that the extraction has left in the
  field is negative and is that float otherwise; n_predict is -1 when the extracted value
  is below -1 and is that value otherwise. Temperature 5 (a number the conversion keeps)
  is stored as 2, and top_k 0 as 1.
\<close>

theorem apply_options_clamps:
  "0 \<le> temp (apply_options to_float nv (Some d) s)
   \<and> temp (apply_options to_float nv (Some d) s) \<le> 2
   \<and> 1 \<le> top_k (apply_options to_float nv (Some d) s)
   \<and> 0 \<le> top_p (apply_options to_float nv (Some d) s)
   \<and> top_p (apply_options to_float nv (Some d) s) \<le> 1
   \<and> 0 \<le> min_p (apply_options to_float nv (Some d) s)
   \<and> min_p (apply_options to_float nv (Some d) s) \<le> 1
   \<and> 0 \<le> repeat_penalty (apply_options to_float nv (Some d) s)
   \<and> repeat_penalty (apply_options to_float nv (Some d) s) =
       (if GET_D_FLOAT to_float d ''repeat_penalty'' (repeat_penalty s) < 0 then 1
        else GET_D_FLOAT to_float d ''repeat_penalty'' (repeat_penalty s))
   \<and> -1 \<le> n_predict (apply_options to_float nv (Some d) s)
   \<and> n_predict (apply_options to_float nv (Some d) s) =
       (if GET_D_INT d ''num_predict'' (n_predict s) < -1 then -1
        else GET_D_INT d ''num_predict'' (n_predict s))
   \<and> (to_float 5 = 5 \<longrightarrow>
        temp (apply_options to_float nv (Some (d(''temperature'' \<mapsto> Tcl_Double 5))) s) = 2)
   \<and> top_k (apply_options to_float nv (Some (d(''top_k'' \<mapsto> Tcl_Int 0))) s) = 1"
  by (simp add: apply_options_def clamp_options_def extract_options_def clamp_unit_def Let_def
      GET_D_FLOAT_def GET_D_INT_def)

text \<open>C8, instance: a dictionary with every clamped option out of range.\<close>

theorem apply_options_clamps_witness:
  "temp (apply_options underflowing_cast 32000
           (Some [''temperature'' \<mapsto> Tcl_Double 5, ''top_k'' \<mapsto> Tcl_Int 0,
                  ''top_p'' \<mapsto> Tcl_Double (-3), ''min_p'' \<mapsto> Tcl_Int 7,
                  ''repeat_penalty'' \<mapsto> Tcl_Double (-1), ''num_predict'' \<mapsto> Tcl_Int (-9)])
           default_state) = 2
   \<and> top_k (apply_options underflowing_cast 32000
           (Some [''temperature'' \<mapsto> Tcl_Double 5, ''top_k'' \<mapsto> Tcl_Int 0,
                  ''top_p'' \<mapsto> Tcl_Double (-3), ''min_p'' \<mapsto> Tcl_Int 7,
                  ''repeat_penalty'' \<mapsto> Tcl_Double (-1), ''num_predict'' \<mapsto> Tcl_Int (-9)])
           default_state) = 1
   \<and> repeat_penalty (apply_options underflowing_cast 32000
           (Some [''temperature'' \<mapsto> Tcl_Double 5, ''top_k'' \<mapsto> Tcl_Int 0,
                  ''top_p'' \<mapsto> Tcl_Double (-3), ''min_p'' \<mapsto> Tcl_Int 7,
                  ''repeat_penalty'' \<mapsto> Tcl_Double (-1), ''num_predict'' \<mapsto> Tcl_Int (-9)])
           default_state) = 1
   \<and> n_predict (apply_options underflowing_cast 32000
           (Some [''temperature'' \<mapsto> Tcl_Double 5, ''top_k'' \<mapsto> Tcl_Int 0,
                  ''top_p'' \<mapsto> Tcl_Double (-3), ''min_p'' \<mapsto> Tcl_Int 7,
                  ''repeat_penalty'' \<mapsto> Tcl_Double (-1), ''num_predict'' \<mapsto> Tcl_Int (-9)])
           default_state) = -1"
proof -
  have c: "underflowing_cast 5 = 5" "underflowing_cast (-1) = -1" "underflowing_cast (-3) = -3"
    by (simp_all add: underflowing_cast_def)
  have e: "[''temperature'' \<mapsto> Tcl_Double 5, ''top_k'' \<mapsto> Tcl_Int 0,
            ''top_p'' \<mapsto> Tcl_Double (-3), ''min_p'' \<mapsto> Tcl_Int 7,
            ''repeat_penalty'' \<mapsto> Tcl_Double (-1), ''num_predict'' \<mapsto> Tcl_Int (-9)]
           (''temperature'' \<mapsto> Tcl_Double 5)
         = [''temperature'' \<mapsto> Tcl_Double 5, ''top_k'' \<mapsto> Tcl_Int 0,
            ''top_p'' \<mapsto> Tcl_Double (-3), ''min_p'' \<mapsto> Tcl_Int 7,
            ''repeat_penalty'' \<mapsto> Tcl_Double (-1), ''num_predict'' \<mapsto> Tcl_Int (-9)]"
    by (rule ext) simp
  have f: "[''temperature'' \<mapsto> Tcl_Double 5, ''top_k'' \<mapsto> Tcl_Int 0,
            ''top_p'' \<mapsto> Tcl_Double (-3), ''min_p'' \<mapsto> Tcl_Int 7,
            ''repeat_penalty'' \<mapsto> Tcl_Double (-1), ''num_predict'' \<mapsto> Tcl_Int (-9)]
           (''top_k'' \<mapsto> Tcl_Int 0)
         = [''temperature'' \<mapsto> Tcl_Double 5, ''top_k'' \<mapsto> Tcl_Int 0,
            ''top_p'' \<mapsto> Tcl_Double (-3), ''min_p'' \<mapsto> Tcl_Int 7,
            ''repeat_penalty'' \<mapsto> Tcl_Double (-1), ''num_predict'' \<mapsto> Tcl_Int (-9)]"
    by (rule ext) simp
  from apply_options_clamps [of underflowing_cast 32000
         "[''temperature'' \<mapsto> Tcl_Double 5, ''top_k'' \<mapsto> Tcl_Int 0,
           ''top_p'' \<mapsto> Tcl_Double (-3), ''min_p'' \<mapsto> Tcl_Int 7,
           ''repeat_penalty'' \<mapsto> Tcl_Double (-1), ''num_predict'' \<mapsto> Tcl_Int (-9)]"
         default_state] c
  show ?thesis unfolding e f by (simp add: GET_D_FLOAT_def GET_D_INT_def)
qed

text \<open>A negative double that the conversion turns into a zero is not negative when the
  test of line 118 reads the field: the repeat penalty is then stored as 0, not reset.\<close>

lemma repeat_penalty_underflow_not_reset:
  "repeat_penalty (apply_options underflowing_cast 32000
      (Some [''repeat_penalty'' \<mapsto> Tcl_Double (- (1 / 2 ^ 200))]) default_state) = 0"
  by (simp add: apply_options_def clamp_options_def extract_options_def GET_D_FLOAT_def
      underflowing_cast_def Let_def)

section \<open>Raw-prompt ingestion\<close>

text \<open>
  C9. In a raw-prompt generation call, \<open>st\<close> being the session once the \<^verbatim>\<open>-reset\<close>
  option of the call has been applied. When the position is 0 and a non-empty system
  message is supplied, the text handed to the tokenizer is the system message, two
  newlines and the prompt, with the special tokens asked for; when the position is greater
  than 0, it is the prompt alone, whatever the system message, without special tokens.
  In both cases, when the tokens fit the buffer and the context, exactly these tokens are
  submitted to the decode as one batch, token \<open>i\<close> at position \<open>n_past st + i\<close> and the
  last one alone with logits; the position has then advanced by their number, and the
  call goes on to generate, or returns "Decode failed" when the batch is rejected.
\<close>

theorem generate_system_prefix:
  assumes "st = reset_session (ga_reset args) state"
  shows
  "(ga_system_msg args = Some sys \<and> sys \<noteq> [] \<and> n_past st = 0
      \<and> be_tokenize be (sys @ [CHR 0x0A, CHR 0x0A] @ ga_prompt args) True = Some toks
      \<and> length toks \<le> length (sys @ [CHR 0x0A, CHR 0x0A] @ ga_prompt args) + 256
      \<and> int (length toks) < n_ctx st
    \<longrightarrow> Llama_Generate_Cmd be args state =
         (if be_decode_prompt be
               (map (\<lambda>i. (toks ! i, int i, Suc i = length toks)) [0..<length toks])
          then (let out = run_inference (be_sample be) (ga_cb_name args) (ga_stop_ids args)
                            (st\<lparr> n_past := int (length toks), n_eval := int (length toks) \<rparr>)
                in \<lparr> co_result = io_result out, co_state = io_state out,
                     co_delivered = io_delivered out \<rparr>)
          else \<lparr> co_result = Inl Decode_failed,
                 co_state = st\<lparr> n_past := int (length toks) \<rparr>, co_delivered = [] \<rparr>))
   \<and> (0 < n_past st
      \<and> be_tokenize be (ga_prompt args) False = Some toks
      \<and> length toks \<le> length (ga_prompt args) + 256
      \<and> n_past st + int (length toks) < n_ctx st
    \<longrightarrow> Llama_Generate_Cmd be args state =
         (if be_decode_prompt be
               (map (\<lambda>i. (toks ! i, n_past st + int i, Suc i = length toks)) [0..<length toks])
          then (let out = run_inference (be_sample be) (ga_cb_name args) (ga_stop_ids args)
                            (st\<lparr> n_past := n_past st + int (length toks),
                                n_eval := int (length toks) \<rparr>)
                in \<lparr> co_result = io_result out, co_state = io_state out,
                     co_delivered = io_delivered out \<rparr>)
          else \<lparr> co_result = Inl Decode_failed,
                 co_state = st\<lparr> n_past := n_past st + int (length toks) \<rparr>,
                 co_delivered = [] \<rparr>))"
  unfolding assms
  by (auto simp: Llama_Generate_Cmd_def full_prompt_of_def ingest_and_generate_def
      llama_tokenize_def fill_prompt_batch_eq Let_def split: option.splits)

text \<open>C9, instance: the prompt "hi" with the system message "s", on a fresh session (the
  five tokens of "s", two newlines, "hi" at positions 0 to 4) and on a session at position
  7 (the two tokens of "hi" at positions 7 and 8), with backends that reject every other
  batch.\<close>

theorem generate_system_prefix_witness:
  "Llama_Generate_Cmd
     (checking_backend [(115, 0, False), (10, 1, False), (10, 2, False), (104, 3, False),
                        (105, 4, True)])
     (plain_args ''hi'' (Some ''s'')) default_state
   = \<lparr> co_result = Inr [],
       co_state = default_state\<lparr> n_past := 5, n_eval := 5, n_gen := 0 \<rparr>,
       co_delivered = [] \<rparr>
   \<and> Llama_Generate_Cmd (checking_backend [(104, 7, False), (105, 8, True)])
       (plain_args ''hi'' (Some ''s'')) (default_state\<lparr> n_past := 7 \<rparr>)
   = \<lparr> co_result = Inr [],
       co_state = default_state\<lparr> n_past := 9, n_eval := 2, n_gen := 0 \<rparr>,
       co_delivered = [] \<rparr>"
proof -
  let ?e1 = "[(115, 0, False), (10, 1, False), (10, 2, False), (104, 3, False), (105, 4, True)]
               :: (int \<times> int \<times> bool) list"
  let ?e2 = "[(104, 7, False), (105, 8, True)] :: (int \<times> int \<times> bool) list"
  let ?a = "plain_args ''hi'' (Some ''s'')"
  have st: "n_past default_state = 0" "n_ctx default_state = 4096"
    by (simp_all add: default_state_def set_defaults_def)
  have b1: "map (\<lambda>i. ([115, 10, 10, 104, 105] ! i, int i, Suc i = length [115, 10, 10, 104, 105 :: int]))
              [0..<length [115, 10, 10, 104, 105 :: int]] = ?e1"
    by code_simp
  have b2: "map (\<lambda>i. ([104, 105] ! i, 7 + int i, Suc i = length [104, 105 :: int]))
              [0..<length [104, 105 :: int]] = ?e2"
    by code_simp
  have r1: "run_inference (scripted_backend []) None [] (default_state\<lparr> n_past := 5, n_eval := 5 \<rparr>)
            = \<lparr> io_result = Inr [], io_state = default_state\<lparr> n_past := 5, n_eval := 5, n_gen := 0 \<rparr>,
                io_delivered = [], io_exit = Stop_eog, io_p_cnt = 0 \<rparr>"
    by code_simp
  have r2: "run_inference (scripted_backend []) None [] (default_state\<lparr> n_past := 9, n_eval := 2 \<rparr>)
            = \<lparr> io_result = Inr [], io_state = default_state\<lparr> n_past := 9, n_eval := 2, n_gen := 0 \<rparr>,
                io_delivered = [], io_exit = Stop_eog, io_p_cnt = 0 \<rparr>"
    by code_simp
  have i1: "Llama_Generate_Cmd (checking_backend ?e1) ?a default_state
   = \<lparr> co_result = Inr [],
       co_state = default_state\<lparr> n_past := 5, n_eval := 5, n_gen := 0 \<rparr>,
       co_delivered = [] \<rparr>"
    using generate_system_prefix [of default_state ?a default_state "''s''" "checking_backend ?e1"
                 "[115, 10, 10, 104, 105]"] st b1 r1
    by (simp add: plain_args_def reset_session_def checking_backend_def)
  have i2: "Llama_Generate_Cmd (checking_backend ?e2) ?a (default_state\<lparr> n_past := 7 \<rparr>)
   = \<lparr> co_result = Inr [],
       co_state = default_state\<lparr> n_past := 9, n_eval := 2, n_gen := 0 \<rparr>,
       co_delivered = [] \<rparr>"
    using generate_system_prefix [of "default_state\<lparr> n_past := 7 \<rparr>" ?a "default_state\<lparr> n_past := 7 \<rparr>" "''s''"
                 "checking_backend ?e2" "[104, 105]"] st b2 r2
    by (simp add: plain_args_def reset_session_def checking_backend_def)
  from i1 i2 show ?thesis by simp
qed

section \<open>Token budget\<close>

text \<open>
  C10. The loop is a total function. It accepts at most \<open>n_predict\<close> tokens when
  \<open>n_predict\<close> is positive and at most 4096 otherwise, and the number of tokens it samples
  is at most the minimum of this budget and the remaining context capacity.
\<close>

theorem generation_budget:
  "int (io_p_cnt (run_inference bk cb stops st)) \<le> max_tokens_of st
   \<and> max_tokens_of st = (if n_predict st > 0 then n_predict st else 4096)
   \<and> int (n_sampled (run_inference bk cb stops st))
        \<le> min (max_tokens_of st) (max 0 (n_ctx st - n_past st))"
proof -
  obtain r p lv where
    run: "run_loop bk cb stops (n_ctx st) (max_tokens_of st) 0
       \<lparr> lv_n_past = n_past st, lv_text_buffer = [], lv_resp = [], lv_delivered = [] \<rparr> = (r, p, lv)"
    and ex: "io_exit (run_inference bk cb stops st) = r"
    and pc: "io_p_cnt (run_inference bk cb stops st) = p"
    by (rule run_inference_cases)
  have pos: "0 < max_tokens_of st" by (simp add: max_tokens_of_def)
  from run_loop_invariant[OF run] pos ex pc show ?thesis
    by (auto simp: n_sampled_def max_tokens_of_def split: if_splits)
qed

text \<open>C10, instance: a backend that never stops, with a budget of 3 tokens, is left after
  exactly 3 accepted tokens.\<close>

theorem generation_budget_witness:
  "io_p_cnt (run_inference (\<lambda>i. text_token ''ab'') None [] (default_state\<lparr> n_predict := 3 \<rparr>)) = 3
   \<and> int (n_sampled (run_inference (\<lambda>i. text_token ''ab'') None []
            (default_state\<lparr> n_predict := 3 \<rparr>))) \<le> 3"
proof -
  have a: "io_p_cnt (run_inference (\<lambda>i. text_token ''ab'') None []
             (default_state\<lparr> n_predict := 3 \<rparr>)) = 3"
    by code_simp
  have b: "max_tokens_of (default_state\<lparr> n_predict := 3 \<rparr>) = 3"
    by (simp add: max_tokens_of_def)
  from a b generation_budget [of "\<lambda>i. text_token ''ab''" None "[]" "default_state\<lparr> n_predict := 3 \<rparr>"]
  show ?thesis by simp
qed

section \<open>Decode failures\<close>

text \<open>
  C4 (as the code has it). When the decode of the prompt batch fails, the call returns
  the error "Decode failed" and the position has been advanced by the number of tokens of
  the failed batch. In the generation loop, \<open>lv0\<close> being the loop variables at its entry:
  whenever iteration \<open>k\<close> is reached, gets to the decode (budget and context left, no
  stop by tier 1 or 2, text handling neither stopping nor aborting) and the decode of its
  token fails, the call returns the error "Decode failed during generation", \<open>k\<close> tokens
  have been accepted, and the position, which was \<open>n_past st + k\<close> when the token was put
  into the batch, is \<open>n_past st + k + 1\<close>. Conversely the call returns that error only
  when the loop is left through a failed decode. The position is not rolled back on
  either path.
\<close>

theorem decode_failure_position:
  assumes "lv0 = \<lparr> lv_n_past = n_past st, lv_text_buffer = [], lv_resp = [], lv_delivered = [] \<rparr>"
  shows
  "(be_tokenize be text (n_past st = 0) = Some toks \<and> length toks \<le> length text + 256
      \<and> n_past st + int (length toks) < n_ctx st
      \<and> \<not> be_decode_prompt be (fill_prompt_batch toks (n_past st))
    \<longrightarrow> ingest_and_generate be cb stops st text =
          \<lparr> co_result = Inl Decode_failed,
            co_state = st\<lparr> n_past := n_past st + int (length toks) \<rparr>,
            co_delivered = [] \<rparr>)
   \<and> (loop_vars_at bk cb stops (n_ctx st) (max_tokens_of st) lv0 k = Some lv
      \<and> int k < max_tokens_of st \<and> lv_n_past lv < n_ctx st
      \<and> \<not> tok_is_eog (bk k) \<and> \<not> tok_is_control (bk k) \<and> tok_id (bk k) \<notin> set stops
      \<and> text_step cb (tok_piece (bk k)) lv = Continue lv1
      \<and> \<not> tok_decode_ok (bk k)
    \<longrightarrow> io_result (run_inference bk cb stops st) = Inl Decode_failed_during_generation
        \<and> io_exit (run_inference bk cb stops st) = Decode_error
        \<and> io_p_cnt (run_inference bk cb stops st) = k
        \<and> lv_n_past lv = n_past st + int k
        \<and> n_past (io_state (run_inference bk cb stops st)) = n_past st + int k + 1)
   \<and> (io_result (run_inference bk cb stops st) = Inl Decode_failed_during_generation) =
       (io_exit (run_inference bk cb stops st) = Decode_error)
   \<and> (io_exit (run_inference bk cb stops st) = Decode_error
    \<longrightarrow> \<not> tok_decode_ok (bk (io_p_cnt (run_inference bk cb stops st)))
        \<and> n_past (io_state (run_inference bk cb stops st)) =
            n_past st + int (io_p_cnt (run_inference bk cb stops st)) + 1)"
proof -
  obtain r p lv' where
    run: "run_loop bk cb stops (n_ctx st) (max_tokens_of st) 0
       \<lparr> lv_n_past = n_past st, lv_text_buffer = [], lv_resp = [], lv_delivered = [] \<rparr> = (r, p, lv')"
    and ex: "io_exit (run_inference bk cb stops st) = r"
    and pc: "io_p_cnt (run_inference bk cb stops st) = p"
    and np: "n_past (io_state (run_inference bk cb stops st)) = lv_n_past lv'"
    and res: "io_result (run_inference bk cb stops st) =
       (if r = Callback_error then Inl Callback_failed
        else if r = Decode_error then Inl Decode_failed_during_generation
        else Inr (c_str (lv_resp (final_flush cb lv'))))"
    by (rule run_inference_cases)
  have ingest: "be_tokenize be text (n_past st = 0) = Some toks \<and> length toks \<le> length text + 256
      \<and> n_past st + int (length toks) < n_ctx st
      \<and> \<not> be_decode_prompt be (fill_prompt_batch toks (n_past st))
    \<longrightarrow> ingest_and_generate be cb stops st text =
          \<lparr> co_result = Inl Decode_failed,
            co_state = st\<lparr> n_past := n_past st + int (length toks) \<rparr>,
            co_delivered = [] \<rparr>"
    by (simp add: ingest_and_generate_def llama_tokenize_def Let_def)
  have step: "loop_vars_at bk cb stops (n_ctx st) (max_tokens_of st) lv0 k = Some lv
      \<and> int k < max_tokens_of st \<and> lv_n_past lv < n_ctx st
      \<and> \<not> tok_is_eog (bk k) \<and> \<not> tok_is_control (bk k) \<and> tok_id (bk k) \<notin> set stops
      \<and> text_step cb (tok_piece (bk k)) lv = Continue lv1
      \<and> \<not> tok_decode_ok (bk k)
    \<longrightarrow> io_result (run_inference bk cb stops st) = Inl Decode_failed_during_generation
        \<and> io_exit (run_inference bk cb stops st) = Decode_error
        \<and> io_p_cnt (run_inference bk cb stops st) = k
        \<and> lv_n_past lv = n_past st + int k
        \<and> n_past (io_state (run_inference bk cb stops st)) = n_past st + int k + 1"
  proof (intro impI, elim conjE)
    assume at: "loop_vars_at bk cb stops (n_ctx st) (max_tokens_of st) lv0 k = Some lv"
      and g: "int k < max_tokens_of st" "lv_n_past lv < n_ctx st"
      and t: "\<not> tok_is_eog (bk k)" "\<not> tok_is_control (bk k)" "tok_id (bk k) \<notin> set stops"
      and ts: "text_step cb (tok_piece (bk k)) lv = Continue lv1"
      and d: "\<not> tok_decode_ok (bk k)"
    from loop_vars_at_run[OF at] failed_decode_leaves_loop[where bk=bk and k=k, OF g t ts d]
    have "run_loop bk cb stops (n_ctx st) (max_tokens_of st) 0 lv0
            = (Decode_error, k, lv1\<lparr> lv_n_past := lv_n_past lv1 + 1 \<rparr>)"
      by simp
    with run have eq: "r = Decode_error" "p = k" "lv' = lv1\<lparr> lv_n_past := lv_n_past lv1 + 1 \<rparr>"
      by (simp_all add: assms)
    from loop_vars_at_n_past[OF at] have n: "lv_n_past lv = n_past st + int k"
      by (simp add: assms)
    from text_step_Continue[OF ts] n eq ex pc np res
    show "io_result (run_inference bk cb stops st) = Inl Decode_failed_during_generation
        \<and> io_exit (run_inference bk cb stops st) = Decode_error
        \<and> io_p_cnt (run_inference bk cb stops st) = k
        \<and> lv_n_past lv = n_past st + int k
        \<and> n_past (io_state (run_inference bk cb stops st)) = n_past st + int k + 1"
      by simp
  qed
  have gen1: "(io_result (run_inference bk cb stops st) = Inl Decode_failed_during_generation) =
       (io_exit (run_inference bk cb stops st) = Decode_error)"
    by (simp add: ex res)
  have gen2: "io_exit (run_inference bk cb stops st) = Decode_error
    \<longrightarrow> \<not> tok_decode_ok (bk (io_p_cnt (run_inference bk cb stops st)))
        \<and> n_past (io_state (run_inference bk cb stops st)) =
            n_past st + int (io_p_cnt (run_inference bk cb stops st)) + 1"
    using run_loop_invariant[OF run] by (simp add: ex pc np)
  from ingest step gen1 gen2 show ?thesis by blast
qed

text \<open>C4, instance: a two-token prompt whose batch is rejected leaves the position at 2;
  a generation whose second decode fails (iteration 1, reached with "x" in the buffer)
  returns the error and leaves the position at 2, one accepted token and the rejected
  one.\<close>

theorem decode_failure_position_witness:
  "ingest_and_generate rejecting_backend None [] default_state ''hi'' =
     \<lparr> co_result = Inl Decode_failed, co_state = default_state\<lparr> n_past := 2 \<rparr>,
       co_delivered = [] \<rparr>
   \<and> io_result (run_inference
        (\<lambda>i. if i = 0 then text_token ''x'' else (text_token ''y'')\<lparr> tok_decode_ok := False \<rparr>)
        None [] default_state) = Inl Decode_failed_during_generation
   \<and> io_p_cnt (run_inference
        (\<lambda>i. if i = 0 then text_token ''x'' else (text_token ''y'')\<lparr> tok_decode_ok := False \<rparr>)
        None [] default_state) = 1
   \<and> n_past (io_state (run_inference
        (\<lambda>i. if i = 0 then text_token ''x'' else (text_token ''y'')\<lparr> tok_decode_ok := False \<rparr>)
        None [] default_state)) = 2"
proof -
  let ?bk = "\<lambda>i::nat. if i = 0 then text_token ''x''
                     else (text_token ''y'')\<lparr> tok_decode_ok := False \<rparr>"
  let ?init = "\<lparr> lv_n_past = n_past default_state, lv_text_buffer = [], lv_resp = [],
                lv_delivered = [] \<rparr>"
  let ?before = "\<lparr> lv_n_past = 1, lv_text_buffer = ''x'', lv_resp = [], lv_delivered = [] \<rparr>"
  let ?after = "\<lparr> lv_n_past = 1, lv_text_buffer = ''xy'', lv_resp = [], lv_delivered = [] \<rparr>"
  have h1: "be_tokenize rejecting_backend ''hi'' (n_past default_state = 0) = Some [104, 105]"
    by (simp add: rejecting_backend_def)
  have h2: "\<not> be_decode_prompt rejecting_backend (fill_prompt_batch [104, 105] (n_past default_state))"
    by (simp add: rejecting_backend_def)
  have h3: "n_past default_state = 0" "n_ctx default_state = 4096"
    "max_tokens_of default_state = 4096"
    by (simp_all add: default_state_def set_defaults_def max_tokens_of_def)
  have h4: "loop_vars_at ?bk None [] (n_ctx default_state) (max_tokens_of default_state) ?init 1
              = Some ?before"
    by code_simp
  have h5: "text_step None (tok_piece (?bk 1)) ?before = Continue ?after"
    by code_simp
  have h6: "\<not> tok_is_eog (?bk 1) \<and> \<not> tok_is_control (?bk 1) \<and> tok_id (?bk 1) \<notin> set []
            \<and> \<not> tok_decode_ok (?bk 1)"
    by (simp add: text_token_def)
  from h1 h2 h3 h4 h5 h6
    decode_failure_position [of ?init default_state rejecting_backend "''hi''" "[104, 105]" None "[]" ?bk 1 ?before ?after]
  show ?thesis by simp
qed

text \<open>C4 as stated fails: after the rejected prompt batch the call reports the decode
  failure, but the position is no longer the one before the batch was submitted.\<close>

theorem decode_failure_position_counterexample:
  "co_result (Llama_Generate_Cmd rejecting_backend (plain_args ''hi'' None) default_state)
     = Inl Decode_failed
   \<and> n_past (co_state (Llama_Generate_Cmd rejecting_backend (plain_args ''hi'' None) default_state))
     \<noteq> n_past default_state"
  by code_simp

section \<open>The textual end-marker shield\<close>

text \<open>
  C1. A backend whose first five tokens are ordinary tokens with non-empty text pieces
  that together spell "<end_of_turn>" (any split of its 13 bytes into five pieces), in a
  session with room for them: the loop is left through the tier-3 textual scan, nothing
  is ever handed to the sink or put into the result, four tokens have been accepted and
  the position has advanced by four, so the token that completed the marker has not been
  decoded.
\<close>

theorem fragmented_marker_stops_generation:
  assumes "length ps = 5" "[] \<notin> set ps" "concat ps = ''<end_of_turn>''"
    and "\<forall>i<5. tok_piece (bk i) = ps ! i \<and> \<not> tok_is_eog (bk i) \<and> \<not> tok_is_control (bk i)
           \<and> tok_id (bk i) \<notin> set stops"
    and "\<forall>i<4. tok_decode_ok (bk i)"
    and "5 \<le> max_tokens_of st" "n_past st + 5 \<le> n_ctx st"
  shows "io_exit (run_inference bk cb stops st) = Stop_marker
       \<and> io_delivered (run_inference bk cb stops st) = []
       \<and> io_result (run_inference bk cb stops st) = Inr []
       \<and> io_p_cnt (run_inference bk cb stops st) = 4
       \<and> n_past (io_state (run_inference bk cb stops st)) = n_past st + 4"
proof -
  let ?lv0 = "\<lparr> lv_n_past = n_past st, lv_text_buffer = [], lv_resp = [], lv_delivered = [] \<rparr>"
  from assms(1) have ne: "ps \<noteq> []" by auto
  have run: "run_loop bk cb stops (n_ctx st) (max_tokens_of st) 0 ?lv0 =
           (Stop_marker, 0 + length ps - 1,
            ?lv0\<lparr> lv_text_buffer := ''<end_of_turn>'',
                  lv_n_past := lv_n_past ?lv0 + int (length ps) - 1 \<rparr>)"
    by (rule marker_run[OF ne assms(2)]) (use assms in simp_all)
  have pt: "has_partial_tag_loop ''<end_of_turn>'' partial_tags"
    by (simp add: partial_tags_def)
  show ?thesis
    by (simp add: run_inference_def run assms(1) final_flush_def pt c_str_def)
qed

text \<open>C1, instance: the marker arriving as "<en", "d_o", "f_t", "ur", "n>" in a fresh
  session with a callback.\<close>

theorem fragmented_marker_stops_generation_witness:
  "io_exit (run_inference (scripted_backend [''<en'', ''d_o'', ''f_t'', ''ur'', ''n>''])
      (Some accepting_callback) [] default_state) = Stop_marker
   \<and> io_delivered (run_inference (scripted_backend [''<en'', ''d_o'', ''f_t'', ''ur'', ''n>''])
      (Some accepting_callback) [] default_state) = []
   \<and> n_past (io_state (run_inference (scripted_backend [''<en'', ''d_o'', ''f_t'', ''ur'', ''n>''])
      (Some accepting_callback) [] default_state)) = 4"
proof -
  let ?ps = "[''<en'', ''d_o'', ''f_t'', ''ur'', ''n>'']"
  have h4: "\<forall>i<5. tok_piece (scripted_backend ?ps i) = ?ps ! i
           \<and> \<not> tok_is_eog (scripted_backend ?ps i) \<and> \<not> tok_is_control (scripted_backend ?ps i)
           \<and> tok_id (scripted_backend ?ps i) \<notin> set []"
    by (simp add: scripted_backend_def text_token_def)
  have h5: "\<forall>i<4. tok_decode_ok (scripted_backend ?ps i)"
    by (simp add: scripted_backend_def text_token_def)
  have h6: "5 \<le> max_tokens_of default_state" "n_past default_state + 5 \<le> n_ctx default_state"
    "n_past default_state = 0"
    by (simp_all add: max_tokens_of_def default_state_def set_defaults_def)
  from fragmented_marker_stops_generation
         [of ?ps "scripted_backend ?ps" "[]" default_state "Some accepting_callback",
          OF _ _ _ h4 h5 h6(1,2)] h6(3)
  show ?thesis by simp
qed

text \<open>
  C2, the code at a buffer with two different markers. The piece
  "a<|im_end|>b<end_of_turn>" holds "<|im_end|>" at offset 1 and "<end_of_turn>" at
  offset 12. The loop over the tag array stops at its first entry that occurs,
  "<end_of_turn>", so the text before offset 12 is emitted: the sink and the result
  receive "a<|im_end|>b", the earlier marker included, where the claim gives "a".
\<close>

theorem two_markers_emit_earlier_marker:
  "str_find ''a<|im_end|>b<end_of_turn>'' ''<|im_end|>'' = Some 1
   \<and> str_find ''a<|im_end|>b<end_of_turn>'' ''<end_of_turn>'' = Some 12
   \<and> io_exit (run_inference (scripted_backend [''a<|im_end|>b<end_of_turn>''])
        (Some accepting_callback) [] default_state) = Stop_marker
   \<and> io_delivered (run_inference (scripted_backend [''a<|im_end|>b<end_of_turn>''])
        (Some accepting_callback) [] default_state) = [''a<|im_end|>b'']
   \<and> io_result (run_inference (scripted_backend [''a<|im_end|>b<end_of_turn>''])
        (Some accepting_callback) [] default_state) = Inr ''a<|im_end|>b''"
  by code_simp

text \<open>
  A second run in which a marker reaches the sink: after "Hello" the marker
  "<|endoftext|>" arrives. The tier-3 emit hands over "Hello"; the flush after the loop
  finds none of its four partial tags in the buffer and hands over the whole buffer,
  marker included.
\<close>

lemma endoftext_marker_flushed_after_loop:
  "io_exit (run_inference (scripted_backend [''Hello'', ''<|endoftext|>''])
        (Some accepting_callback) [] default_state) = Stop_marker
   \<and> io_delivered (run_inference (scripted_backend [''Hello'', ''<|endoftext|>''])
        (Some accepting_callback) [] default_state) = [''Hello'', ''Hello<|endoftext|>'']
   \<and> io_result (run_inference (scripted_backend [''Hello'', ''<|endoftext|>''])
        (Some accepting_callback) [] default_state) = Inr ''HelloHello<|endoftext|>''"
  by code_simp

section \<open>Character boundaries of the delivered fragments\<close>

text \<open>
  C3, the code at a 4-byte character split over two tokens, F0 9F and 98 80, with a
  budget of one token. The loop accepts the first token and is left because the budget is
  used up; the flush after the loop hands the buffer over as it is, so the sink receives
  the two bytes F0 9F: the leading byte of a 4-byte character and one continuation byte.
  By the boundary rule of the code itself no complete character ends in this fragment.
\<close>

theorem final_flush_delivers_partial_character:
  "utf8_char_length (CHR 0xF0) = 4
   \<and> io_exit (run_inference (scripted_backend [[CHR 0xF0, CHR 0x9F], [CHR 0x98, CHR 0x80]])
        (Some accepting_callback) [] (default_state\<lparr> n_predict := 1 \<rparr>)) = Budget_exhausted
   \<and> io_delivered (run_inference (scripted_backend [[CHR 0xF0, CHR 0x9F], [CHR 0x98, CHR 0x80]])
        (Some accepting_callback) [] (default_state\<lparr> n_predict := 1 \<rparr>)) = [[CHR 0xF0, CHR 0x9F]]
   \<and> io_result (run_inference (scripted_backend [[CHR 0xF0, CHR 0x9F], [CHR 0x98, CHR 0x80]])
        (Some accepting_callback) [] (default_state\<lparr> n_predict := 1 \<rparr>)) = Inr [CHR 0xF0, CHR 0x9F]
   \<and> find_last_utf8_boundary [CHR 0xF0, CHR 0x9F] 2 = 0"
  by code_simp

text \<open>
  A second run, in which every token is consumed: the 4-byte character F0 9F 98 80 in
  one piece, then a piece of 48 letters. The buffer grows to 52 bytes and is cut back to
  its last 50, which drops F0 9F; the following flush hands over 98 80 and 28 letters, a
  fragment that starts inside the character.
\<close>

lemma front_trim_splits_character:
  "io_delivered (run_inference
      (scripted_backend [[CHR 0xF0, CHR 0x9F, CHR 0x98, CHR 0x80], replicate 48 (CHR ''a'')])
      (Some accepting_callback) [] default_state)
   = [[CHR 0x98, CHR 0x80] @ replicate 28 (CHR ''a''), replicate 20 (CHR ''a'')]"
  by code_simp

section \<open>Failures of the sink\<close>

text \<open>
  C6, the code at a callback that fails on its second invocation. One piece of 25
  letters, then the end of generation: the margin flush hands over 5 letters (first
  invocation, success), the flush after the loop hands over the remaining 20 (second
  invocation, failure). The failure is not looked at: the call returns \<^verbatim>\<open>TCL_OK\<close> with
  the 25 letters.
\<close>

theorem callback_failure_at_final_flush_ignored:
  "\<not> fails_on_second_call 1 (replicate 20 (CHR ''a''))
   \<and> io_delivered (run_inference (scripted_backend [replicate 25 (CHR ''a'')])
        (Some fails_on_second_call) [] default_state)
       = [replicate 5 (CHR ''a''), replicate 20 (CHR ''a'')]
   \<and> io_result (run_inference (scripted_backend [replicate 25 (CHR ''a'')])
        (Some fails_on_second_call) [] default_state) = Inr (replicate 25 (CHR ''a''))"
  by code_simp

text \<open>The same at the tier-3 emit, with a callback that always fails: "Hi" is handed over
  before the marker and the call returns \<^verbatim>\<open>TCL_OK\<close>.\<close>

lemma callback_failure_at_tier3_emit_ignored:
  "io_delivered (run_inference (scripted_backend [''Hi'', ''<end_of_turn>''])
        (Some (\<lambda>i fragment. False)) [] default_state) = [''Hi'']
   \<and> io_result (run_inference (scripted_backend [''Hi'', ''<end_of_turn>''])
        (Some (\<lambda>i fragment. False)) [] default_state) = Inr ''Hi''"
  by code_simp

text \<open>At the margin flush the failure is looked at: when the second invocation is a
  margin flush, the call returns the error with one token accepted, and the token in
  hand is not decoded.\<close>

lemma callback_failure_at_margin_flush_aborts:
  "io_result (run_inference
        (scripted_backend [replicate 25 (CHR ''a''), replicate 25 (CHR ''b'')])
        (Some fails_on_second_call) [] default_state) = Inl Callback_failed
   \<and> io_delivered (run_inference
        (scripted_backend [replicate 25 (CHR ''a''), replicate 25 (CHR ''b'')])
        (Some fails_on_second_call) [] default_state)
       = [replicate 5 (CHR ''a''), replicate 20 (CHR ''a'') @ replicate 5 (CHR ''b'')]
   \<and> io_p_cnt (run_inference
        (scripted_backend [replicate 25 (CHR ''a''), replicate 25 (CHR ''b'')])
        (Some fails_on_second_call) [] default_state) = 1
   \<and> n_past (io_state (run_inference
        (scripted_backend [replicate 25 (CHR ''a''), replicate 25 (CHR ''b'')])
        (Some fails_on_second_call) [] default_state)) = 1"
  by code_simp

section \<open>The flush after the loop\<close>




end
